theory Spec2Isabelle
  imports Main "HOL-Library.Sublist"
begin

section \<open>Python strings and truthiness\<close>

text \<open>
  A Python \<open>str\<close> is modelled as a \<open>string\<close> whose characters are the code points
  below 256. \<open>isspace\<close> lists the code points of that range that \<open>str.strip()\<close>
  removes: TAB, LF, VT, FF, CR, the separators 0x1C..0x1F, SPACE, NEL (0x85) and the
  no-break space (0xA0). The pictographs that prefix some user-facing messages lie
  outside the range and are left out of the literals below.
\<close>

definition isspace :: "char \<Rightarrow> bool" where
  "isspace c = (c \<in> set [CHR 0x09, CHR 0x0A, CHR 0x0B, CHR 0x0C, CHR 0x0D,
                          CHR 0x1C, CHR 0x1D, CHR 0x1E, CHR 0x1F, CHR 0x20,
                          CHR 0x85, CHR 0xA0])"

definition strip :: "string \<Rightarrow> string" where
  "strip s = rev (dropWhile isspace (rev (dropWhile isspace s)))"

text \<open>\<open>bool(x)\<close> for a value that is \<open>None\<close> or a \<open>str\<close>.\<close>

fun truthy :: "string option \<Rightarrow> bool" where
  "truthy None = False"
| "truthy (Some s) = (s \<noteq> [])"

text \<open>\<open>a or b\<close> where \<open>a\<close> is \<open>None\<close> or a \<open>str\<close> and \<open>b\<close> is a \<open>str\<close>.\<close>

definition or_else :: "string option \<Rightarrow> string \<Rightarrow> string" where
  "or_else a b = (if truthy a then the a else b)"

section \<open>The process environment\<close>

type_synonym env = "string \<rightharpoonup> string"

text \<open>\<open>os.getenv(name)\<close> is \<open>e name\<close>; \<open>os.getenv(name, default)\<close> is \<open>getenv_default\<close>.\<close>

definition getenv_default :: "env \<Rightarrow> string \<Rightarrow> string \<Rightarrow> string" where
  "getenv_default e name d = (case e name of None \<Rightarrow> d | Some v \<Rightarrow> v)"

section \<open>Credential validation (browser\_use\_ui\_fixed.py)\<close>

definition placeholders :: "string list" where
  "placeholders = [''your_api_key_here'', ''your_openai_api_key_here'',
                   ''your_anthropic_api_key_here'']"

definition min_key_length :: nat where
  "min_key_length = 10"

definition validate_api_key :: "string option \<Rightarrow> bool" where
  "validate_api_key key_value =
     (case key_value of
        None \<Rightarrow> False
      | Some k \<Rightarrow>
          if k = [] \<or> strip k = [] then False
          else if k \<in> set placeholders then False
          else if length (strip k) < min_key_length then False
          else True)"

text \<open>
  The credential check as the specification words it: configured means non-empty, not a
  reserved placeholder, and meeting the minimum length.
\<close>

definition configured_spec :: "string \<Rightarrow> bool" where
  "configured_spec k = (k \<noteq> [] \<and> k \<notin> set placeholders \<and> \<not> length k < min_key_length)"

section \<open>Client construction (flexible\_browser\_use.py)\<close>

text \<open>
  Exceptions carry the class that decides which \<open>except\<close> clause takes them, and their
  \<open>str()\<close>. \<open>AsyncioTimeout\<close> is an instance of \<open>asyncio.TimeoutError\<close>, \<open>ValueErr\<close> one
  of \<open>ValueError\<close>, \<open>OtherException\<close> any other instance of \<open>Exception\<close>, and
  \<open>BaseExceptionOnly\<close> an instance of \<open>BaseException\<close> that is not an \<open>Exception\<close>
  (\<open>KeyboardInterrupt\<close>, \<open>SystemExit\<close>, \<open>asyncio.CancelledError\<close>).
\<close>

datatype exc_class = AsyncioTimeout | ValueErr | OtherException | BaseExceptionOnly

datatype exc = Exc exc_class string

fun class_of :: "exc \<Rightarrow> exc_class" where
  "class_of (Exc c m) = c"

fun str_of :: "exc \<Rightarrow> string" where
  "str_of (Exc c m) = m"

text \<open>
  The SDK constructors are external; a client handle is modelled as the record of the
  keyword arguments it was built from. Arguments a constructor is not given are \<open>None\<close>.
  The temperature 0.0 is kept as the integer 0.
\<close>

datatype client_class = ChatOpenAI | ChatAnthropic | ChatGoogleGenerativeAI

record llm =
  client :: client_class
  model :: string
  temperature :: int
  api_key :: string
  base_url :: "string option"
  request_timeout :: "nat option"
  default_headers :: "(string \<times> string) list option"

definition create_openai_llm :: "env \<Rightarrow> string option \<Rightarrow> exc + llm" where
  "create_openai_llm e model_name =
     (if \<not> truthy (e ''OPENAI_API_KEY'')
      then Inl (Exc ValueErr ''OPENAI_API_KEY not found in environment variables'')
      else Inr \<lparr>client = ChatOpenAI,
                model = or_else model_name (getenv_default e ''OPENAI_MODEL'' ''gpt-4o''),
                temperature = 0,
                api_key = the (e ''OPENAI_API_KEY''),
                base_url = None, request_timeout = None, default_headers = None\<rparr>)"

definition create_anthropic_llm :: "env \<Rightarrow> string option \<Rightarrow> exc + llm" where
  "create_anthropic_llm e model_name =
     (if \<not> truthy (e ''ANTHROPIC_API_KEY'')
         \<or> e ''ANTHROPIC_API_KEY'' = Some ''your_anthropic_api_key_here''
      then Inl (Exc ValueErr
        ''ANTHROPIC_API_KEY not found or not configured in environment variables'')
      else Inr \<lparr>client = ChatAnthropic,
                model = or_else model_name
                  (getenv_default e ''ANTHROPIC_MODEL'' ''claude-3-5-sonnet-20240620''),
                temperature = 0,
                api_key = the (e ''ANTHROPIC_API_KEY''),
                base_url = None, request_timeout = Some 60, default_headers = None\<rparr>)"

definition create_google_llm :: "env \<Rightarrow> string option \<Rightarrow> exc + llm" where
  "create_google_llm e model_name =
     (if \<not> truthy (e ''GOOGLE_API_KEY'')
         \<or> e ''GOOGLE_API_KEY'' = Some ''your_google_api_key_here''
      then Inl (Exc ValueErr
        ''GOOGLE_API_KEY not found or not configured in environment variables'')
      else Inr \<lparr>client = ChatGoogleGenerativeAI,
                model = or_else model_name
                  (getenv_default e ''GOOGLE_MODEL'' ''gemini-1.5-pro''),
                temperature = 0,
                api_key = the (e ''GOOGLE_API_KEY''),
                base_url = None, request_timeout = None, default_headers = None\<rparr>)"

text \<open>
  \<open>extra_headers\<close> is a dict filled by two independent \<open>if\<close> statements; as the two keys
  differ, the dict is the list of its items in insertion order.
\<close>

definition extra_headers :: "env \<Rightarrow> (string \<times> string) list" where
  "extra_headers e =
     (if truthy (e ''OPENROUTER_SITE_URL'')
      then [(''HTTP-Referer'', the (e ''OPENROUTER_SITE_URL''))] else [])
     @ (if truthy (e ''OPENROUTER_SITE_NAME'')
        then [(''X-Title'', the (e ''OPENROUTER_SITE_NAME''))] else [])"

definition create_openrouter_llm :: "env \<Rightarrow> string option \<Rightarrow> exc + llm" where
  "create_openrouter_llm e model_name =
     (if \<not> truthy (e ''OPENROUTER_API_KEY'')
         \<or> e ''OPENROUTER_API_KEY'' = Some ''your_openrouter_api_key_here''
      then Inl (Exc ValueErr
        ''OPENROUTER_API_KEY not found or not configured in environment variables'')
      else Inr \<lparr>client = ChatOpenAI,
                model = or_else model_name
                  (getenv_default e ''OPENROUTER_MODEL'' ''openai/gpt-4o''),
                temperature = 0,
                api_key = the (e ''OPENROUTER_API_KEY''),
                base_url = Some ''https://openrouter.ai/api/v1'',
                request_timeout = None,
                default_headers = Some (extra_headers e)\<rparr>)"

text \<open>The fixed enumeration, as the front-ends write it out for their fallback.\<close>

definition supported_providers :: "string list" where
  "supported_providers = [''openai'', ''anthropic'', ''google'', ''openrouter'']"

definition get_available_providers :: "env \<Rightarrow> string list" where
  "get_available_providers e =
     (if truthy (e ''OPENAI_API_KEY'') then [''openai''] else [])
     @ (if truthy (e ''ANTHROPIC_API_KEY'')
           \<and> e ''ANTHROPIC_API_KEY'' \<noteq> Some ''your_anthropic_api_key_here''
        then [''anthropic''] else [])
     @ (if truthy (e ''GOOGLE_API_KEY'')
           \<and> e ''GOOGLE_API_KEY'' \<noteq> Some ''your_google_api_key_here''
        then [''google''] else [])
     @ (if truthy (e ''OPENROUTER_API_KEY'')
           \<and> e ''OPENROUTER_API_KEY'' \<noteq> Some ''your_openrouter_api_key_here''
        then [''openrouter''] else [])"

text \<open>
  The \<open>if\<close>/\<open>elif\<close> chain that both dispatchers and \<open>create_llm\<close> use to pick the
  constructor for a provider identifier.
\<close>

definition select_llm :: "env \<Rightarrow> string \<Rightarrow> string option \<Rightarrow> exc + llm" where
  "select_llm e provider model_name =
     (if provider = ''openai'' then create_openai_llm e model_name
      else if provider = ''anthropic'' then create_anthropic_llm e model_name
      else if provider = ''google'' then create_google_llm e model_name
      else if provider = ''openrouter'' then create_openrouter_llm e model_name
      else Inl (Exc ValueErr (''Unsupported provider: '' @ provider)))"

text \<open>
  The environment variable that holds a provider's credential, and the provider list
  as the specification words it: the providers whose credential is configured.
\<close>

definition credential_var :: "string \<Rightarrow> string" where
  "credential_var p =
     (if p = ''openai'' then ''OPENAI_API_KEY''
      else if p = ''anthropic'' then ''ANTHROPIC_API_KEY''
      else if p = ''google'' then ''GOOGLE_API_KEY''
      else ''OPENROUTER_API_KEY'')"

definition available_providers_spec :: "env \<Rightarrow> string list" where
  "available_providers_spec e =
     filter (\<lambda>p. validate_api_key (e (credential_var p))) supported_providers"

section \<open>Model suggestion tables\<close>

text \<open>\<open>d.get(k, [])\<close> on a dict literal, kept as its list of items.\<close>

definition dict_get :: "(string \<times> string list) list \<Rightarrow> string \<Rightarrow> string list" where
  "dict_get d k = (case map_of d k of None \<Rightarrow> [] | Some v \<Rightarrow> v)"

definition models_fixed :: "(string \<times> string list) list" where
  "models_fixed =
     [(''openai'', [''gpt-4o'', ''gpt-4o-mini'', ''gpt-4-turbo'', ''gpt-4'', ''gpt-3.5-turbo'']),
      (''anthropic'', [''claude-3-5-sonnet-20240620'', ''claude-3-5-haiku-20241022'',
                       ''claude-3-opus-20240229'', ''claude-3-sonnet-20240229'',
                       ''claude-3-haiku-20240307'']),
      (''google'', [''gemini-1.5-pro'', ''gemini-1.5-flash'', ''gemini-pro'',
                    ''gemini-pro-vision'']),
      (''openrouter'', [''openai/gpt-4o'', ''openai/gpt-4o-mini'',
                        ''anthropic/claude-3-5-sonnet'', ''anthropic/claude-3-5-haiku'',
                        ''google/gemini-pro'', ''meta-llama/llama-3.1-405b'',
                        ''mistralai/mistral-large'', ''cohere/command-r-plus''])]"

definition models_original :: "(string \<times> string list) list" where
  "models_original =
     [(''openai'', [''gpt-4o'', ''gpt-4o-mini'', ''gpt-4-turbo'', ''gpt-3.5-turbo'']),
      (''anthropic'', [''claude-3-5-sonnet-20240620'', ''claude-3-5-haiku-20241022'',
                       ''claude-3-opus-20240229'']),
      (''google'', [''gemini-1.5-pro'', ''gemini-1.5-flash'', ''gemini-pro'']),
      (''openrouter'', [''openai/gpt-4o'', ''anthropic/claude-3-5-sonnet'',
                        ''google/gemini-pro'', ''meta-llama/llama-3.1-405b'',
                        ''mistralai/mistral-large'', ''cohere/command-r-plus''])]"

definition model_suggestions :: "(string \<times> string list) list" where
  "model_suggestions =
     [(''openai'', [''gpt-4o'', ''gpt-4o-mini'', ''gpt-4-turbo'', ''gpt-3.5-turbo'']),
      (''anthropic'', [''claude-3-5-sonnet-20240620'', ''claude-3-5-haiku-20241022'',
                       ''claude-3-opus-20240229'']),
      (''google'', [''gemini-1.5-pro'', ''gemini-1.5-flash'', ''gemini-pro'']),
      (''openrouter'', [''openai/gpt-4o'', ''anthropic/claude-3-5-sonnet'',
                        ''google/gemini-pro'', ''meta-llama/llama-3.1-405b''])]"

text \<open>\<open>get_model_options\<close> of browser\_use\_ui\_fixed.py.\<close>

definition get_model_options :: "string \<Rightarrow> string list" where
  "get_model_options provider = dict_get models_fixed provider"

text \<open>\<open>get_model_options\<close> of browser\_use\_ui.py.\<close>

definition get_model_options_original :: "string \<Rightarrow> string list" where
  "get_model_options_original provider = dict_get models_original provider"

text \<open>\<open>model_suggestions.get(provider, [])\<close> of \<open>interactive_provider_selection\<close>.\<close>

definition suggestions :: "string \<Rightarrow> string list" where
  "suggestions provider = dict_get model_suggestions provider"

section \<open>The external automation agent\<close>

text \<open>
  The agent is an external collaborator. What the dispatchers see of one run of
  \<open>Agent(task=task, llm=llm).run()\<close> is how long it takes when it is left alone, in the
  time units of the timeout, and how it ends then: it returns a result or raises; left
  alone, a run may also never finish. Of a result the front-end uses its truth value and
  its \<open>str()\<close>.
\<close>

datatype agent_result = AgentResult bool string

datatype awaited = Returns agent_result | Raises exc

text \<open>
  \<open>asyncio.wait_for\<close> cancels a run that is not done when the timeout expires, and then
  waits until the run has ended. What the run does with the cancellation is its own
  affair: it ends cancelled (\<open>Cancels\<close>); it swallows the cancellation, or cleans up, and
  ends later by returning or raising (\<open>Ends_with\<close>); or it swallows the cancellation and
  never ends (\<open>Never_ends\<close>).
\<close>

datatype cancellation = Cancels | Ends_with awaited | Never_ends

datatype run = Finishes nat awaited cancellation | Never_finishes cancellation

type_synonym agent = "string \<Rightarrow> llm \<Rightarrow> run"

text \<open>
  What \<open>wait_for\<close> yields once it has cancelled the run: \<open>asyncio.TimeoutError\<close> for a
  run that ends cancelled, the late outcome of a run that ends by itself, and nothing
  (\<open>None\<close>: the call does not come back) for a run that never ends.
\<close>

fun after_cancel :: "cancellation \<Rightarrow> awaited option" where
  "after_cancel Cancels = Some (Raises (Exc AsyncioTimeout []))"
| "after_cancel (Ends_with out) = Some out"
| "after_cancel Never_ends = None"

text \<open>
  \<open>asyncio.wait_for(aw, timeout)\<close>: the outcome of a run that is done before the timeout
  expires; every other run is cancelled at expiry.
\<close>

fun wait_for :: "run \<Rightarrow> nat \<Rightarrow> awaited option" where
  "wait_for (Finishes d out c) timeout = (if d < timeout then Some out else after_cancel c)"
| "wait_for (Never_finishes c) timeout = after_cancel c"

text \<open>A bare \<open>await\<close>: no outcome at all when the run never finishes.\<close>

fun await_run :: "run \<Rightarrow> awaited option" where
  "await_run (Finishes d out c) = Some out"
| "await_run (Never_finishes c) = None"

text \<open>
  \<open>run_task_with_llm\<close> of flexible\_browser\_use.py; every caller leaves
  \<open>browser_config\<close> at \<open>None\<close>. It builds one \<open>Agent\<close> for the task and the client
  handle and awaits its \<open>run()\<close> once: the call it makes, and the run to await.
\<close>

definition run_task_with_llm :: "agent \<Rightarrow> string \<Rightarrow> llm \<Rightarrow> (string \<times> llm) list \<times> run" where
  "run_task_with_llm ag task l = ([(task, l)], ag task l)"

section \<open>The task dispatcher\<close>

text \<open>
  What a caller of \<open>run_browser_task\<close> observes: the pair \<open>(result, error)\<close> it returns,
  an exception that leaves it, or no return at all. \<open>agent_calls\<close> lists the
  \<open>(task, llm)\<close> pairs the agent was started with, in order.
\<close>

datatype outcome =
    Returned "agent_result option" "string option"
  | Propagated exc
  | Blocks_forever

record dispatch =
  agent_calls :: "(string \<times> llm) list"
  outcome :: outcome

definition task_timeout :: nat where
  "task_timeout = 300"

subsection \<open>browser\_use\_ui\_fixed.py\<close>

text \<open>
  The body of the \<open>try\<close> block: the agent calls it makes and how it ends (\<open>None\<close> when it
  does not end). A client handle is always true, so the check \<open>if not llm\<close> never raises.
\<close>

definition try_body :: "agent \<Rightarrow> env \<Rightarrow> string \<Rightarrow> string \<Rightarrow> string option
    \<Rightarrow> (string \<times> llm) list \<times> awaited option" where
  "try_body ag e task provider model_name =
     (if task = [] \<or> strip task = []
      then ([], Some (Raises (Exc ValueErr ''Task cannot be empty'')))
      else if provider = []
      then ([], Some (Raises (Exc ValueErr ''Provider must be specified'')))
      else case select_llm e provider model_name of
             Inl x \<Rightarrow> ([], Some (Raises x))
           | Inr l \<Rightarrow>
               (fst (run_task_with_llm ag (strip task) l),
                wait_for (snd (run_task_with_llm ag (strip task) l)) task_timeout))"

text \<open>The three \<open>except\<close> clauses, in the order of the source.\<close>

fun except_clauses :: "awaited option \<Rightarrow> outcome" where
  "except_clauses None = Blocks_forever"
| "except_clauses (Some (Returns r)) = Returned (Some r) None"
| "except_clauses (Some (Raises (Exc AsyncioTimeout m))) =
     Returned None (Some ''Task timed out after 5 minutes. Please try a simpler task.'')"
| "except_clauses (Some (Raises (Exc ValueErr m))) =
     Returned None (Some (''Configuration error: '' @ m))"
| "except_clauses (Some (Raises (Exc OtherException m))) =
     Returned None (Some (''Execution error: '' @ m))"
| "except_clauses (Some (Raises (Exc BaseExceptionOnly m))) =
     Propagated (Exc BaseExceptionOnly m)"

definition run_browser_task :: "agent \<Rightarrow> env \<Rightarrow> string \<Rightarrow> string \<Rightarrow> string option
    \<Rightarrow> dispatch" where
  "run_browser_task ag e task provider model_name =
     (let body = try_body ag e task provider model_name
      in \<lparr>agent_calls = fst body, outcome = except_clauses (snd body)\<rparr>)"

subsection \<open>browser\_use\_ui.py\<close>

text \<open>One clause, \<open>except Exception as e: return None, str(e)\<close>.\<close>

fun except_clause_original :: "awaited option \<Rightarrow> outcome" where
  "except_clause_original None = Blocks_forever"
| "except_clause_original (Some (Returns r)) = Returned (Some r) None"
| "except_clause_original (Some (Raises (Exc BaseExceptionOnly m))) =
     Propagated (Exc BaseExceptionOnly m)"
| "except_clause_original (Some (Raises (Exc c m))) = Returned None (Some m)"

definition run_browser_task_original :: "agent \<Rightarrow> env \<Rightarrow> string \<Rightarrow> string
    \<Rightarrow> string option \<Rightarrow> dispatch" where
  "run_browser_task_original ag e task provider model_name =
     (case select_llm e provider model_name of
        Inl x \<Rightarrow> \<lparr>agent_calls = [], outcome = except_clause_original (Some (Raises x))\<rparr>
      | Inr l \<Rightarrow>
          \<lparr>agent_calls = fst (run_task_with_llm ag task l),
           outcome = except_clause_original (await_run (snd (run_task_with_llm ag task l)))\<rparr>)"

section \<open>Session state and the task handler of \<open>main\<close>\<close>

record message =
  role :: string
  content :: string
  timestamp :: string

record session =
  chat_history :: "message list"
  current_task :: string
  task_running :: bool
  llm_provider :: string
  model_name :: string
  last_error :: "string option"
  task_count :: nat

text \<open>
  How the handler leaves the script run: \<open>st.rerun()\<close>, \<open>st.stop()\<close>, the condition of
  the \<open>if\<close> was false, an exception left \<open>main\<close>, or the call never came back.
\<close>

datatype control = Rerun | Stop | No_dispatch | Escapes exc | Blocked

text \<open>
  \<open>str.upper()\<close> on the ASCII letters; provider identifiers come from the select box,
  whose options are ASCII.
\<close>

definition upper_char :: "char \<Rightarrow> char" where
  "upper_char c =
     (case map_of (zip ''abcdefghijklmnopqrstuvwxyz'' ''ABCDEFGHIJKLMNOPQRSTUVWXYZ'') c of
        None \<Rightarrow> c
      | Some u \<Rightarrow> u)"

definition upper :: "string \<Rightarrow> string" where
  "upper s = map upper_char s"

definition append_message :: "string \<Rightarrow> string \<Rightarrow> string \<Rightarrow> session \<Rightarrow> session" where
  "append_message r c t s =
     s\<lparr>chat_history := chat_history s @ [\<lparr>role = r, content = c, timestamp = t\<rparr>]\<rparr>"

text \<open>\<open>str(result) if result else "Task completed successfully!"\<close>\<close>

fun result_text :: "agent_result option \<Rightarrow> string" where
  "result_text (Some (AgentResult True t)) = t"
| "result_text r = ''Task completed successfully!''"

definition completed_message :: "agent_result option \<Rightarrow> string" where
  "completed_message r = ''Task completed!'' @ [CHR 0x0A, CHR 0x0A] @ result_text r"

text \<open>
  The block \<open>if start_button and task_input and task_input.strip()\<close> of
  browser\_use\_ui\_fixed.py. \<open>now1\<close> and \<open>now2\<close> are the clock readings at submission
  and at completion.
\<close>

definition handle_task :: "agent \<Rightarrow> env \<Rightarrow> string \<Rightarrow> string \<Rightarrow> bool \<Rightarrow> string \<Rightarrow> string
    \<Rightarrow> session \<Rightarrow> session \<times> control" where
  "handle_task ag e now1 now2 start_button task_input provider s =
     (if start_button \<and> task_input \<noteq> [] \<and> strip task_input \<noteq> [] then
        if \<not> validate_api_key (e (upper provider @ ''_API_KEY'')) then (s, Stop)
        else
          let s1 = (append_message ''user'' (strip task_input) now1 s)\<lparr>task_running := True\<rparr>
          in case outcome (run_browser_task ag e (strip task_input) provider
                             (Some (model_name s1))) of
               Returned result error \<Rightarrow>
                 (if truthy error
                  then ((append_message ''assistant'' (''Error: '' @ the error) now2 s1)
                          \<lparr>last_error := error, task_running := False\<rparr>, Rerun)
                  else ((append_message ''assistant'' (completed_message result) now2 s1)
                          \<lparr>task_count := task_count s1 + 1, last_error := None,
                            task_running := False\<rparr>, Rerun))
             | Propagated x \<Rightarrow>
                 (if class_of x = BaseExceptionOnly then (s1, Escapes x)
                  else ((append_message ''assistant'' (''Unexpected error: '' @ str_of x)
                           now2 s1)
                          \<lparr>last_error := Some (''Unexpected error: '' @ str_of x),
                            task_running := False\<rparr>, Rerun))
             | Blocks_forever \<Rightarrow> (s1, Blocked)
      else (s, No_dispatch))"

text \<open>The block \<open>if start_button and task_input.strip()\<close> of browser\_use\_ui.py.\<close>

definition handle_task_original :: "agent \<Rightarrow> env \<Rightarrow> string \<Rightarrow> string \<Rightarrow> bool \<Rightarrow> string
    \<Rightarrow> string \<Rightarrow> session \<Rightarrow> session \<times> control" where
  "handle_task_original ag e now1 now2 start_button task_input provider s =
     (if start_button \<and> strip task_input \<noteq> [] then
        let s1 = (append_message ''user'' (strip task_input) now1 s)
                   \<lparr>current_task := strip task_input, task_running := True\<rparr>
        in case outcome (run_browser_task_original ag e (strip task_input) provider
                           (Some (model_name s1))) of
             Returned result error \<Rightarrow>
               (if truthy error
                then ((append_message ''assistant'' (''Error: '' @ the error) now2 s1)
                        \<lparr>task_running := False, current_task := []\<rparr>, Rerun)
                else ((append_message ''assistant'' (completed_message result) now2 s1)
                        \<lparr>task_running := False, current_task := []\<rparr>, Rerun))
           | Propagated x \<Rightarrow>
               (if class_of x = BaseExceptionOnly then (s1, Escapes x)
                else ((append_message ''assistant'' (''Unexpected error: '' @ str_of x)
                         now2 s1)
                        \<lparr>task_running := False, current_task := []\<rparr>, Rerun))
           | Blocks_forever \<Rightarrow> (s1, Blocked)
      else (s, No_dispatch))"

section \<open>The settings store\<close>

text \<open>
  The part of the world the settings store touches: the process environment, the
  content of the file \<open>.env\<close> (\<open>None\<close> when there is no such file), and whether
  \<open>open('.env', 'w')\<close> succeeds.
\<close>

record world =
  environ :: env
  dotenv :: "string option"
  writable :: bool

definition newline :: char where
  "newline = CHR 0x0A"

definition unlines :: "string list \<Rightarrow> string" where
  "unlines ls = concat (map (\<lambda>l. l @ [newline]) ls)"

text \<open>The f-string \<open>env_content\<close>, line by line; the four keys are already formatted.\<close>

definition env_lines :: "string \<Rightarrow> string \<Rightarrow> string \<Rightarrow> string \<Rightarrow> string \<Rightarrow> env \<Rightarrow> string list" where
  "env_lines k1 k2 k3 k4 provider e =
     [''# === API KEYS ==='',
      ''OPENAI_API_KEY='' @ k1,
      ''ANTHROPIC_API_KEY='' @ k2,
      ''GOOGLE_API_KEY='' @ k3,
      ''OPENROUTER_API_KEY='' @ k4,
      [],
      ''# === PROVIDER SELECTION ==='',
      ''LLM_PROVIDER='' @ provider,
      [],
      ''# === MODEL SELECTION ==='',
      ''OPENAI_MODEL='' @ getenv_default e ''OPENAI_MODEL'' ''gpt-4o'',
      ''ANTHROPIC_MODEL='' @ getenv_default e ''ANTHROPIC_MODEL'' ''claude-3-5-sonnet-20240620'',
      ''GOOGLE_MODEL='' @ getenv_default e ''GOOGLE_MODEL'' ''gemini-1.5-pro'',
      ''OPENROUTER_MODEL='' @ getenv_default e ''OPENROUTER_MODEL'' ''openai/gpt-4o'',
      [],
      ''# === BROWSER USE SETTINGS ==='',
      ''BROWSER_USE_LOGGING_LEVEL=debug'',
      ''ANONYMIZED_TELEMETRY=false'',
      ''INTERACTIVE_MODE=false'',
      [],
      ''# === OPENROUTER SPECIFIC ==='',
      ''OPENROUTER_SITE_URL=https://your-site.com'',
      ''OPENROUTER_SITE_NAME=Browser Use Automation'']"

definition env_content :: "string \<Rightarrow> string \<Rightarrow> string \<Rightarrow> string \<Rightarrow> string \<Rightarrow> env \<Rightarrow> string" where
  "env_content k1 k2 k3 k4 provider e = unlines (env_lines k1 k2 k3 k4 provider e)"

subsection \<open>Reading the file\<close>

text \<open>
  Modelled from the spec: the reader of the settings file. The front-ends read the file
  with \<open>load_dotenv\<close> of the python-dotenv package, which is not among the source files;
  the definitions of this subsection follow the specification's description of the file
  instead. The file is plain text with one \<open>KEY=VALUE\<close> pair per line, grouped under
  comment-delimited sections; malformed lines are ignored. A value is everything after
  the first \<open>=\<close> of its line.
\<close>

fun lines_from :: "string \<Rightarrow> string \<Rightarrow> string list" where
  "lines_from cur [] = (if cur = [] then [] else [rev cur])"
| "lines_from cur (c # cs) =
     (if c = newline then rev cur # lines_from [] cs else lines_from (c # cur) cs)"

definition split_lines :: "string \<Rightarrow> string list" where
  "split_lines s = lines_from [] s"

definition parse_line :: "string \<Rightarrow> (string \<times> string) option" where
  "parse_line l =
     (if l = [] \<or> hd l = CHR ''#'' then None
      else if CHR ''='' \<notin> set l \<or> hd l = CHR ''='' then None
      else Some (takeWhile (\<lambda>c. c \<noteq> CHR ''='') l, tl (dropWhile (\<lambda>c. c \<noteq> CHR ''='') l)))"

definition dotenv_values :: "string \<Rightarrow> (string \<times> string) list" where
  "dotenv_values data = List.map_filter parse_line (split_lines data)"

definition set_var :: "bool \<Rightarrow> env \<Rightarrow> string \<times> string \<Rightarrow> env" where
  "set_var override e kv = (if override \<or> e (fst kv) = None then e(fst kv \<mapsto> snd kv) else e)"

text \<open>
  Modelled from the spec: \<open>load_dotenv(override)\<close>. A missing file changes nothing;
  with \<open>override\<close> a pair replaces a variable that is already set, without it the
  variable is kept.
\<close>

definition load_dotenv :: "bool \<Rightarrow> world \<Rightarrow> world" where
  "load_dotenv override w =
     (case dotenv w of
        None \<Rightarrow> w
      | Some data \<Rightarrow>
          w\<lparr>environ := foldl (set_var override) (environ w) (dotenv_values data)\<rparr>)"

subsection \<open>Saving (browser\_use\_ui\_fixed.py)\<close>

text \<open>\<open>key.strip() if key else ''\<close>\<close>

definition strip_or_empty :: "string option \<Rightarrow> string" where
  "strip_or_empty k = (if truthy k then strip (the k) else [])"

text \<open>
  \<open>save_api_keys\<close> returns its boolean and the world it leaves. When \<open>open\<close> raises,
  the \<open>except Exception\<close> clause returns \<open>False\<close>.
\<close>

definition save_api_keys :: "session \<Rightarrow> world \<Rightarrow> string option \<Rightarrow> string option
    \<Rightarrow> string option \<Rightarrow> string option \<Rightarrow> bool \<times> world" where
  "save_api_keys s w openai_key anthropic_key google_key openrouter_key =
     (let valid_keys = [validate_api_key openai_key, validate_api_key anthropic_key,
                        validate_api_key google_key, validate_api_key openrouter_key]
      in if \<not> (True \<in> set valid_keys) then (False, w)
         else if \<not> writable w then (False, w)
         else (True, load_dotenv True
                 (w\<lparr>dotenv := Some (env_content (strip_or_empty openai_key)
                                       (strip_or_empty anthropic_key)
                                       (strip_or_empty google_key)
                                       (strip_or_empty openrouter_key)
                                       (llm_provider s) (environ w))\<rparr>)))"

subsection \<open>Saving (browser\_use\_ui.py)\<close>

text \<open>An f-string field \<open>{key}\<close>: \<open>str(key)\<close>.\<close>

definition format_key :: "string option \<Rightarrow> string" where
  "format_key k = (case k of None \<Rightarrow> ''None'' | Some v \<Rightarrow> v)"

text \<open>
  The original \<open>save_api_keys\<close> has no \<open>try\<close> and no \<open>return\<close>: it yields \<open>None\<close>, or the
  exception of \<open>open\<close> leaves it (\<open>Inl\<close>).
\<close>

definition save_api_keys_original :: "session \<Rightarrow> world \<Rightarrow> string option \<Rightarrow> string option
    \<Rightarrow> string option \<Rightarrow> string option \<Rightarrow> exc + world" where
  "save_api_keys_original s w openai_key anthropic_key google_key openrouter_key =
     (if \<not> writable w then Inl (Exc OtherException ''Permission denied'')
      else Inr (load_dotenv True
                 (w\<lparr>dotenv := Some (env_content (format_key openai_key)
                                       (format_key anthropic_key)
                                       (format_key google_key)
                                       (format_key openrouter_key)
                                       (llm_provider s) (environ w))\<rparr>)))"

subsection \<open>Loading\<close>

text \<open>
  What a new session observes of the settings: the four credentials that \<open>main\<close> reads
  into its text inputs with \<open>os.getenv(NAME, "")\<close>, and the provider and model that
  \<open>initialize_session_state\<close> sets.
\<close>

record settings =
  openai_credential :: string
  anthropic_credential :: string
  google_credential :: string
  openrouter_credential :: string
  provider_selected :: string
  model_selected :: string

text \<open>The module-level \<open>load_dotenv()\<close> followed by the reads of a new session.\<close>

definition load :: "world \<Rightarrow> settings" where
  "load w =
     (let e = environ (load_dotenv False w)
      in \<lparr>openai_credential = getenv_default e ''OPENAI_API_KEY'' [],
          anthropic_credential = getenv_default e ''ANTHROPIC_API_KEY'' [],
          google_credential = getenv_default e ''GOOGLE_API_KEY'' [],
          openrouter_credential = getenv_default e ''OPENROUTER_API_KEY'' [],
          provider_selected = getenv_default e ''LLM_PROVIDER'' ''openai'',
          model_selected = []\<rparr>)"

text \<open>
  The input of a save, as the settings a later session would have to observe for the
  round trip to hold: the four credentials as entered, the provider and the model of
  the session.
\<close>

definition saved_input :: "session \<Rightarrow> string \<Rightarrow> string \<Rightarrow> string \<Rightarrow> string \<Rightarrow> settings" where
  "saved_input s openai_key anthropic_key google_key openrouter_key =
     \<lparr>openai_credential = openai_key,
      anthropic_credential = anthropic_key,
      google_credential = google_key,
      openrouter_credential = openrouter_key,
      provider_selected = llm_provider s,
      model_selected = model_name s\<rparr>"

text \<open>The variables of the settings file that a new session reads back.\<close>

definition settings_vars :: "string list" where
  "settings_vars = [''OPENAI_API_KEY'', ''ANTHROPIC_API_KEY'', ''GOOGLE_API_KEY'',
                    ''OPENROUTER_API_KEY'', ''LLM_PROVIDER'']"

text \<open>
  The strings that the fixed \<open>save_api_keys\<close> interpolates into the file, and what it
  takes for one of them to stay on its line.
\<close>

definition single_line :: "string \<Rightarrow> bool" where
  "single_line v = (newline \<notin> set v)"

definition interpolated :: "session \<Rightarrow> world \<Rightarrow> string option \<Rightarrow> string option
    \<Rightarrow> string option \<Rightarrow> string option \<Rightarrow> string list" where
  "interpolated s w openai_key anthropic_key google_key openrouter_key =
     [strip_or_empty openai_key, strip_or_empty anthropic_key, strip_or_empty google_key,
      strip_or_empty openrouter_key, llm_provider s,
      getenv_default (environ w) ''OPENAI_MODEL'' ''gpt-4o'',
      getenv_default (environ w) ''ANTHROPIC_MODEL'' ''claude-3-5-sonnet-20240620'',
      getenv_default (environ w) ''GOOGLE_MODEL'' ''gemini-1.5-pro'',
      getenv_default (environ w) ''OPENROUTER_MODEL'' ''openai/gpt-4o'']"

section \<open>Concrete inputs\<close>

text \<open>
  A session as \<open>initialize_session_state\<close> leaves it, with a model picked in the select
  box; a world with no settings file yet; an environment that holds one credential; and
  the client handle that \<open>create_openai_llm\<close> builds from that environment.
\<close>

definition example_session :: session where
  "example_session =
     \<lparr>chat_history = [], current_task = [], task_running = False, llm_provider = ''openai'',
      model_name = ''gpt-4'', last_error = None, task_count = 0\<rparr>"

definition empty_world :: world where
  "empty_world = \<lparr>environ = Map.empty, dotenv = None, writable = True\<rparr>"

definition openai_env :: env where
  "openai_env = [''OPENAI_API_KEY'' \<mapsto> ''sk-validkey1234'']"

text \<open>A world whose settings file holds that credential.\<close>

definition configured_world :: world where
  "configured_world =
     \<lparr>environ = openai_env,
      dotenv = Some (''OPENAI_API_KEY=sk-validkey1234'' @ [newline]),
      writable = True\<rparr>"

definition openai_handle :: llm where
  "openai_handle =
     \<lparr>client = ChatOpenAI, model = ''gpt-4o'', temperature = 0, api_key = ''sk-validkey1234'',
      base_url = None, request_timeout = None, default_headers = None\<rparr>"

section \<open>Auxiliary facts\<close>

lemma strip_Nil: "strip [] = []"
  by (simp add: strip_def)

lemma truthy_the: "truthy x \<Longrightarrow> Some (the x) = x"
  by (cases x) simp_all

subsection \<open>The dispatchers\<close>

lemma try_body_reaches:
  "strip t \<noteq> [] \<Longrightarrow> p \<noteq> [] \<Longrightarrow> select_llm e p m = Inr l \<Longrightarrow>
   try_body ag e t p m = ([(strip t, l)], wait_for (ag (strip t) l) task_timeout)"
  by (auto simp: try_body_def run_task_with_llm_def strip_Nil)

lemma agent_calls_at_most_once: "length (agent_calls (run_browser_task ag e t p m)) \<le> 1"
  by (simp add: run_browser_task_def try_body_def run_task_with_llm_def Let_def
      split: sum.splits)

text \<open>
  The dispatcher of browser\_use\_ui.py has no check of the task of its own: called
  directly with the empty task, it starts the agent. Its only caller is the handler.
\<close>

lemma original_dispatcher_unchecked:
  "run_browser_task_original
      (\<lambda>t l. Finishes 5 (Returns (AgentResult True ''done'')) Cancels)
      openai_env [] ''openai'' None =
     \<lparr>agent_calls = [([], openai_handle)],
      outcome = Returned (Some (AgentResult True ''done'')) None\<rparr>"
  by (simp add: run_browser_task_original_def run_task_with_llm_def select_llm_def
      create_openai_llm_def or_else_def getenv_default_def openai_env_def openai_handle_def)

text \<open>
  Whenever the dispatcher hands its pair back, either handler leaves through
  \<open>st.rerun()\<close> with the flag cleared.
\<close>

lemma flag_cleared_on_return:
  assumes "b" and "strip t \<noteq> []" and "validate_api_key (e (upper p @ ''_API_KEY''))"
    and "outcome (run_browser_task ag e (strip t) p (Some (model_name s))) = Returned r err"
  shows "snd (handle_task ag e n1 n2 b t p s) = Rerun"
    and "\<not> task_running (fst (handle_task ag e n1 n2 b t p s))"
proof -
  from assms(2) have "t \<noteq> []" by (auto simp: strip_Nil)
  with assms show "snd (handle_task ag e n1 n2 b t p s) = Rerun"
    and "\<not> task_running (fst (handle_task ag e n1 n2 b t p s))"
    by (simp_all add: handle_task_def append_message_def Let_def)
qed

lemma flag_cleared_on_return_original:
  assumes "b" and "strip t \<noteq> []"
    and "outcome (run_browser_task_original ag e (strip t) p (Some (model_name s)))
         = Returned r err"
  shows "snd (handle_task_original ag e n1 n2 b t p s) = Rerun"
    and "\<not> task_running (fst (handle_task_original ag e n1 n2 b t p s))"
  using assms by (simp_all add: handle_task_original_def append_message_def Let_def)

subsection \<open>The settings file\<close>

lemma lines_from_line:
  "newline \<notin> set l \<Longrightarrow>
   lines_from cur (l @ newline # rest) = (rev cur @ l) # lines_from [] rest"
  by (induction l arbitrary: cur) auto

lemma split_lines_unlines:
  "\<forall>l\<in>set ls. newline \<notin> set l \<Longrightarrow> split_lines (unlines ls) = ls"
proof (induction ls)
  case Nil
  then show ?case by (simp add: split_lines_def unlines_def)
next
  case (Cons l ls)
  then have "newline \<notin> set l" and "split_lines (unlines ls) = ls" by simp_all
  then show ?case
    using lines_from_line [of l "[]" "unlines ls"]
    by (simp add: split_lines_def unlines_def)
qed

lemma parse_env_lines:
  "List.map_filter parse_line (env_lines k1 k2 k3 k4 p e) =
     [(''OPENAI_API_KEY'', k1), (''ANTHROPIC_API_KEY'', k2), (''GOOGLE_API_KEY'', k3),
      (''OPENROUTER_API_KEY'', k4), (''LLM_PROVIDER'', p),
      (''OPENAI_MODEL'', getenv_default e ''OPENAI_MODEL'' ''gpt-4o''),
      (''ANTHROPIC_MODEL'', getenv_default e ''ANTHROPIC_MODEL'' ''claude-3-5-sonnet-20240620''),
      (''GOOGLE_MODEL'', getenv_default e ''GOOGLE_MODEL'' ''gemini-1.5-pro''),
      (''OPENROUTER_MODEL'', getenv_default e ''OPENROUTER_MODEL'' ''openai/gpt-4o''),
      (''BROWSER_USE_LOGGING_LEVEL'', ''debug''), (''ANONYMIZED_TELEMETRY'', ''false''),
      (''INTERACTIVE_MODE'', ''false''), (''OPENROUTER_SITE_URL'', ''https://your-site.com''),
      (''OPENROUTER_SITE_NAME'', ''Browser Use Automation'')]"
  by (simp add: env_lines_def List.map_filter_simps parse_line_def)

lemma dotenv_values_env_content:
  assumes "\<forall>l\<in>set (env_lines k1 k2 k3 k4 p e). newline \<notin> set l"
  shows "dotenv_values (env_content k1 k2 k3 k4 p e) =
           List.map_filter parse_line (env_lines k1 k2 k3 k4 p e)"
  using split_lines_unlines [OF assms] by (simp add: dotenv_values_def env_content_def)

lemma set_var_override_apply:
  "set_var True e b k = (if k = fst b then Some (snd b) else e k)"
  by (simp add: set_var_def)

lemma set_var_keep_apply:
  "set_var False e b k = (if k = fst b \<and> e k = None then Some (snd b) else e k)"
  by (auto simp: set_var_def)

text \<open>With \<open>override\<close> the last pair for a variable wins; without it the first one
  does, and only where the variable was not set.\<close>

lemma foldl_set_var_override:
  "foldl (set_var True) e bs k = (case map_of (rev bs) k of Some v \<Rightarrow> Some v | None \<Rightarrow> e k)"
proof (induction bs arbitrary: e)
  case Nil
  then show ?case by simp
next
  case (Cons b bs)
  have "foldl (set_var True) e (b # bs) k = foldl (set_var True) (set_var True e b) bs k"
    by simp
  also have "\<dots> = (case map_of (rev bs) k of Some v \<Rightarrow> Some v | None \<Rightarrow> set_var True e b k)"
    by (rule Cons.IH)
  finally have step: "foldl (set_var True) e (b # bs) k =
      (case map_of (rev bs) k of Some v \<Rightarrow> Some v | None \<Rightarrow> set_var True e b k)" .
  show ?case
    by (subst step, cases b)
      (simp add: set_var_override_apply map_add_def split: option.splits)
qed

lemma foldl_set_var_keep:
  "foldl (set_var False) e bs k = (case e k of Some v \<Rightarrow> Some v | None \<Rightarrow> map_of bs k)"
proof (induction bs arbitrary: e)
  case Nil
  then show ?case by (simp split: option.splits)
next
  case (Cons b bs)
  have "foldl (set_var False) e (b # bs) k = foldl (set_var False) (set_var False e b) bs k"
    by simp
  also have "\<dots> = (case set_var False e b k of Some v \<Rightarrow> Some v | None \<Rightarrow> map_of bs k)"
    by (rule Cons.IH)
  finally have step: "foldl (set_var False) e (b # bs) k =
      (case set_var False e b k of Some v \<Rightarrow> Some v | None \<Rightarrow> map_of bs k)" .
  show ?case
    by (subst step, cases b) (simp add: set_var_keep_apply split: option.splits)
qed

lemma written_map_of:
  "map_of (List.map_filter parse_line (env_lines k1 k2 k3 k4 p e)) ''OPENAI_API_KEY'' = Some k1"
  "map_of (List.map_filter parse_line (env_lines k1 k2 k3 k4 p e)) ''ANTHROPIC_API_KEY'' = Some k2"
  "map_of (List.map_filter parse_line (env_lines k1 k2 k3 k4 p e)) ''GOOGLE_API_KEY'' = Some k3"
  "map_of (List.map_filter parse_line (env_lines k1 k2 k3 k4 p e)) ''OPENROUTER_API_KEY'' = Some k4"
  "map_of (List.map_filter parse_line (env_lines k1 k2 k3 k4 p e)) ''LLM_PROVIDER'' = Some p"
  by (simp_all add: parse_env_lines)

lemma written_map_of_rev:
  "map_of (rev (List.map_filter parse_line (env_lines k1 k2 k3 k4 p e))) ''OPENAI_API_KEY'' = Some k1"
  "map_of (rev (List.map_filter parse_line (env_lines k1 k2 k3 k4 p e))) ''ANTHROPIC_API_KEY'' = Some k2"
  "map_of (rev (List.map_filter parse_line (env_lines k1 k2 k3 k4 p e))) ''GOOGLE_API_KEY'' = Some k3"
  "map_of (rev (List.map_filter parse_line (env_lines k1 k2 k3 k4 p e))) ''OPENROUTER_API_KEY'' = Some k4"
  "map_of (rev (List.map_filter parse_line (env_lines k1 k2 k3 k4 p e))) ''LLM_PROVIDER'' = Some p"
  by (simp_all add: parse_env_lines)

lemma reloaded_lookup:
  assumes "e1 = foldl (set_var True) e0 bs \<or> e1 k = None"
    and "map_of bs k = Some v" and "map_of (rev bs) k = Some v"
  shows "foldl (set_var False) e1 bs k = Some v"
  using assms by (auto simp: foldl_set_var_keep foldl_set_var_override)

text \<open>
  Loading a file that \<open>env_content\<close> wrote, in the process that wrote it or in one
  whose environment does not set the five variables.
\<close>

lemma load_written:
  assumes "dotenv w = Some (env_content k1 k2 k3 k4 p e)"
    and "\<forall>l\<in>set (env_lines k1 k2 k3 k4 p e). newline \<notin> set l"
    and "environ w = foldl (set_var True) e0 (dotenv_values (env_content k1 k2 k3 k4 p e))
         \<or> (\<forall>k\<in>set settings_vars. environ w k = None)"
  shows "load w = \<lparr>openai_credential = k1, anthropic_credential = k2, google_credential = k3,
                   openrouter_credential = k4, provider_selected = p, model_selected = []\<rparr>"
proof -
  define bs where "bs = List.map_filter parse_line (env_lines k1 k2 k3 k4 p e)"
  have v: "dotenv_values (env_content k1 k2 k3 k4 p e) = bs"
    unfolding bs_def by (rule dotenv_values_env_content [OF assms(2)])
  have src: "environ w = foldl (set_var True) e0 bs \<or> environ w k = None"
    if "k \<in> set settings_vars" for k
    using assms(3) that by (auto simp: v)
  have e: "environ (load_dotenv False w) = foldl (set_var False) (environ w) bs"
    by (simp add: load_dotenv_def assms(1) v)
  have "environ (load_dotenv False w) ''OPENAI_API_KEY'' = Some k1"
    unfolding e by (rule reloaded_lookup [OF src])
      (simp_all add: settings_vars_def bs_def written_map_of written_map_of_rev)
  moreover have "environ (load_dotenv False w) ''ANTHROPIC_API_KEY'' = Some k2"
    unfolding e by (rule reloaded_lookup [OF src])
      (simp_all add: settings_vars_def bs_def written_map_of written_map_of_rev)
  moreover have "environ (load_dotenv False w) ''GOOGLE_API_KEY'' = Some k3"
    unfolding e by (rule reloaded_lookup [OF src])
      (simp_all add: settings_vars_def bs_def written_map_of written_map_of_rev)
  moreover have "environ (load_dotenv False w) ''OPENROUTER_API_KEY'' = Some k4"
    unfolding e by (rule reloaded_lookup [OF src])
      (simp_all add: settings_vars_def bs_def written_map_of written_map_of_rev)
  moreover have "environ (load_dotenv False w) ''LLM_PROVIDER'' = Some p"
    unfolding e by (rule reloaded_lookup [OF src])
      (simp_all add: settings_vars_def bs_def written_map_of written_map_of_rev)
  ultimately show ?thesis
    by (simp add: load_def getenv_default_def)
qed

lemma save_api_keys_success:
  assumes "fst (save_api_keys s w k1 k2 k3 k4)"
  shows "snd (save_api_keys s w k1 k2 k3 k4) =
           w\<lparr>dotenv := Some (env_content (strip_or_empty k1) (strip_or_empty k2)
                                (strip_or_empty k3) (strip_or_empty k4)
                                (llm_provider s) (environ w)),
             environ := foldl (set_var True) (environ w)
               (dotenv_values (env_content (strip_or_empty k1) (strip_or_empty k2)
                                (strip_or_empty k3) (strip_or_empty k4)
                                (llm_provider s) (environ w)))\<rparr>"
  using assms
  by (auto simp add: save_api_keys_def load_dotenv_def Let_def split: if_splits)

lemma load_after_save:
  assumes "fst (save_api_keys s w k1 k2 k3 k4)"
    and "\<forall>l\<in>set (env_lines (strip_or_empty k1) (strip_or_empty k2) (strip_or_empty k3)
                   (strip_or_empty k4) (llm_provider s) (environ w)). newline \<notin> set l"
    and "e1 = environ (snd (save_api_keys s w k1 k2 k3 k4))
         \<or> (\<forall>k\<in>set settings_vars. e1 k = None)"
  shows "load ((snd (save_api_keys s w k1 k2 k3 k4))\<lparr>environ := e1\<rparr>) =
           \<lparr>openai_credential = strip_or_empty k1, anthropic_credential = strip_or_empty k2,
            google_credential = strip_or_empty k3, openrouter_credential = strip_or_empty k4,
            provider_selected = llm_provider s, model_selected = []\<rparr>"
proof (rule load_written [where e = "environ w" and ?e0.0 = "environ w"])
  show "dotenv ((snd (save_api_keys s w k1 k2 k3 k4))\<lparr>environ := e1\<rparr>) =
     Some (env_content (strip_or_empty k1) (strip_or_empty k2) (strip_or_empty k3)
        (strip_or_empty k4) (llm_provider s) (environ w))"
    by (simp add: save_api_keys_success [OF assms(1)])
  show "\<forall>l\<in>set (env_lines (strip_or_empty k1) (strip_or_empty k2) (strip_or_empty k3)
                   (strip_or_empty k4) (llm_provider s) (environ w)). newline \<notin> set l"
    by (rule assms(2))
  from assms(3)
  show "environ ((snd (save_api_keys s w k1 k2 k3 k4))\<lparr>environ := e1\<rparr>) =
      foldl (set_var True) (environ w)
        (dotenv_values (env_content (strip_or_empty k1) (strip_or_empty k2)
           (strip_or_empty k3) (strip_or_empty k4) (llm_provider s) (environ w)))
      \<or> (\<forall>k\<in>set settings_vars.
            environ ((snd (save_api_keys s w k1 k2 k3 k4))\<lparr>environ := e1\<rparr>) k = None)"
    by (auto simp: save_api_keys_success [OF assms(1)])
qed

lemma example_saved:
  "fst (save_api_keys example_session empty_world
          (Some '' sk-validkey1234'') (Some []) (Some []) (Some []))"
  by (simp add: save_api_keys_def validate_api_key_def strip_def isspace_def placeholders_def
      min_key_length_def example_session_def empty_world_def)

lemma example_lines:
  "\<forall>l\<in>set (env_lines (strip_or_empty (Some '' sk-validkey1234'')) (strip_or_empty (Some []))
              (strip_or_empty (Some [])) (strip_or_empty (Some []))
              (llm_provider example_session) (environ empty_world)). newline \<notin> set l"
  by (simp add: env_lines_def strip_or_empty_def strip_def isspace_def newline_def
      example_session_def empty_world_def getenv_default_def)

text \<open>
  The fixed \<open>save_api_keys\<close> returns \<open>False\<close> and leaves the world as it was when no
  credential passes \<open>validate_api_key\<close>.
\<close>

lemma save_rejects_unconfigured:
  assumes "\<not> validate_api_key k1" and "\<not> validate_api_key k2"
    and "\<not> validate_api_key k3" and "\<not> validate_api_key k4"
  shows "save_api_keys s w k1 k2 k3 k4 = (False, w)"
  using assms by (simp add: save_api_keys_def)

section \<open>The claims\<close>

subsection \<open>C1: what the dispatcher does with an exception of the agent\<close>

text \<open>
  C1, counterexample. With a credential for \<open>openai\<close> in the environment, the agent is
  started once and raises \<open>ValueError("bad selector")\<close> after 5 time units. The fixed
  dispatcher takes it in its \<open>except ValueError\<close> clause and reports a configuration
  error, not an execution error.
\<close>

theorem agent_value_error_counterexample:
  "run_browser_task (\<lambda>t l. Finishes 5 (Raises (Exc ValueErr ''bad selector'')) Cancels)
      openai_env ''open example.org'' ''openai'' None =
     \<lparr>agent_calls = [(''open example.org'', openai_handle)],
      outcome = Returned None (Some ''Configuration error: bad selector'')\<rparr>
   \<and> outcome (run_browser_task
        (\<lambda>t l. Finishes 5 (Raises (Exc ValueErr ''bad selector'')) Cancels)
        openai_env ''open example.org'' ''openai'' None)
     \<noteq> Returned None (Some ''Execution error: bad selector'')"
  by (simp add: run_browser_task_def try_body_def run_task_with_llm_def select_llm_def
      create_openai_llm_def or_else_def getenv_default_def strip_def isspace_def
      task_timeout_def openai_env_def openai_handle_def)

text \<open>
  C1, as amended. When the dispatch reaches the agent (the task is not blank, the
  provider is named and its client is built) and the agent raises an exception that is an
  instance of \<open>Exception\<close> before the timeout, that is after fewer than 300 time units,
  the fixed dispatcher returns \<open>(None, message)\<close> and lets nothing through: the message is
  \<open>"Execution error: " + str(e)\<close>, except that a \<open>ValueError\<close> gives
  \<open>"Configuration error: " + str(e)\<close> and an \<open>asyncio.TimeoutError\<close> the timeout
  message. The original dispatcher returns \<open>(None, str(e))\<close> for every such exception.
\<close>

theorem agent_exception_returned:
  assumes "strip t \<noteq> []" and "p \<noteq> []" and "select_llm e p m = Inr l"
    and "ag (strip t) l = Finishes d (Raises (Exc c msg)) cb" and "d < 300"
    and "c \<noteq> BaseExceptionOnly"
  shows "outcome (run_browser_task ag e t p m) =
           Returned None (Some
             (case c of
                AsyncioTimeout \<Rightarrow>
                  ''Task timed out after 5 minutes. Please try a simpler task.''
              | ValueErr \<Rightarrow> ''Configuration error: '' @ msg
              | _ \<Rightarrow> ''Execution error: '' @ msg))
         \<and> outcome (run_browser_task_original ag e (strip t) p m) = Returned None (Some msg)"
  using assms try_body_reaches [OF assms(1-3), of ag]
  by (cases c)
    (simp_all add: run_browser_task_def run_browser_task_original_def run_task_with_llm_def
      task_timeout_def)

theorem agent_exception_returned_witness:
  "outcome (run_browser_task
      (\<lambda>t l. Finishes 299 (Raises (Exc OtherException ''net down'')) Cancels)
      openai_env ''open example.org '' ''openai'' None)
     = Returned None (Some ''Execution error: net down'')
   \<and> outcome (run_browser_task_original
        (\<lambda>t l. Finishes 299 (Raises (Exc OtherException ''net down'')) Cancels)
        openai_env ''open example.org'' ''openai'' None)
     = Returned None (Some ''net down'')"
proof -
  let ?ag = "\<lambda>(t::string) (l::llm).
               Finishes 299 (Raises (Exc OtherException ''net down'')) Cancels"
  have s: "strip ''open example.org '' = ''open example.org''"
    by (simp add: strip_def isspace_def)
  have l: "select_llm openai_env ''openai'' None = Inr openai_handle"
    by (simp add: select_llm_def create_openai_llm_def or_else_def getenv_default_def
        openai_env_def openai_handle_def)
  have a: "?ag (strip ''open example.org '') openai_handle
             = Finishes 299 (Raises (Exc OtherException ''net down'')) Cancels"
    by simp
  from agent_exception_returned [of "''open example.org ''" "''openai''" openai_env None
      openai_handle ?ag 299 OtherException "''net down''" Cancels, OF _ _ l a]
  show ?thesis by (simp add: s)
qed

subsection \<open>C2: the timeout of the fixed dispatcher\<close>

text \<open>
  C2, counterexample. The run is not done after 300 time units and is cancelled; it
  swallows the cancellation and returns later. \<open>asyncio.wait_for\<close> waits for it, past the
  bound, and the dispatcher returns the late result as a success instead of the timeout
  error.
\<close>

theorem timeout_counterexample:
  "run_browser_task
      (\<lambda>t l. Finishes 400 (Returns (AgentResult True ''done''))
                (Ends_with (Returns (AgentResult True ''done late''))))
      openai_env ''open example.org'' ''openai'' None =
     \<lparr>agent_calls = [(''open example.org'', openai_handle)],
      outcome = Returned (Some (AgentResult True ''done late'')) None\<rparr>"
  by (simp add: run_browser_task_def try_body_def run_task_with_llm_def select_llm_def
      create_openai_llm_def or_else_def getenv_default_def strip_def isspace_def
      task_timeout_def openai_env_def openai_handle_def)

text \<open>
  C2, as amended. In the fixed dispatcher the await of the agent is bounded by a timeout
  of 300 time units for every run that ends when it is cancelled. When the dispatch
  reaches the agent, the agent is started exactly once, with the stripped task, and
  \<^item> a run that returns after fewer than 300 time units has its result returned;
  \<^item> a run that is not done after 300 time units, or never finishes, and ends when it is
    cancelled gives \<open>(None, "Task timed out after 5 minutes. Please try a simpler task.")\<close>,
    with no second attempt.
\<close>

theorem timeout_bound:
  assumes "strip t \<noteq> []" and "p \<noteq> []" and "select_llm e p m = Inr l"
  shows "(\<forall>d r cb. d < 300 \<longrightarrow> ag (strip t) l = Finishes d (Returns r) cb \<longrightarrow>
            run_browser_task ag e t p m =
              \<lparr>agent_calls = [(strip t, l)], outcome = Returned (Some r) None\<rparr>)
       \<and> ((\<exists>d out. 300 \<le> d \<and> ag (strip t) l = Finishes d out Cancels)
            \<or> ag (strip t) l = Never_finishes Cancels \<longrightarrow>
            run_browser_task ag e t p m =
              \<lparr>agent_calls = [(strip t, l)],
               outcome = Returned None
                 (Some ''Task timed out after 5 minutes. Please try a simpler task.'')\<rparr>)"
proof (intro conjI allI impI)
  fix d r cb
  assume "d < 300" and "ag (strip t) l = Finishes d (Returns r) cb"
  with try_body_reaches [OF assms, of ag]
  show "run_browser_task ag e t p m =
          \<lparr>agent_calls = [(strip t, l)], outcome = Returned (Some r) None\<rparr>"
    by (simp add: run_browser_task_def task_timeout_def)
next
  assume "(\<exists>d out. 300 \<le> d \<and> ag (strip t) l = Finishes d out Cancels)
          \<or> ag (strip t) l = Never_finishes Cancels"
  then have "wait_for (ag (strip t) l) task_timeout = Some (Raises (Exc AsyncioTimeout []))"
    by (auto simp: task_timeout_def)
  with try_body_reaches [OF assms, of ag]
  show "run_browser_task ag e t p m =
          \<lparr>agent_calls = [(strip t, l)],
           outcome = Returned None
             (Some ''Task timed out after 5 minutes. Please try a simpler task.'')\<rparr>"
    by (simp add: run_browser_task_def)
qed

theorem timeout_bound_witness:
  "run_browser_task (\<lambda>t l. Finishes 299 (Returns (AgentResult True ''done'')) Cancels)
      openai_env ''open example.org '' ''openai'' None =
     \<lparr>agent_calls = [(''open example.org'', openai_handle)],
      outcome = Returned (Some (AgentResult True ''done'')) None\<rparr>
   \<and> run_browser_task (\<lambda>t l. Finishes 300 (Returns (AgentResult True ''done'')) Cancels)
      openai_env ''open example.org '' ''openai'' None =
     \<lparr>agent_calls = [(''open example.org'', openai_handle)],
      outcome = Returned None
        (Some ''Task timed out after 5 minutes. Please try a simpler task.'')\<rparr>"
proof -
  let ?early = "\<lambda>(t::string) (l::llm). Finishes 299 (Returns (AgentResult True ''done'')) Cancels"
  let ?late = "\<lambda>(t::string) (l::llm). Finishes 300 (Returns (AgentResult True ''done'')) Cancels"
  have s: "strip ''open example.org '' = ''open example.org''"
    by (simp add: strip_def isspace_def)
  then have n: "strip ''open example.org '' \<noteq> []"
    by simp
  have p: "''openai'' \<noteq> []"
    by simp
  have l: "select_llm openai_env ''openai'' None = Inr openai_handle"
    by (simp add: select_llm_def create_openai_llm_def or_else_def getenv_default_def
        openai_env_def openai_handle_def)
  from timeout_bound [OF n p l, of ?early]
  have "run_browser_task ?early openai_env ''open example.org '' ''openai'' None =
     \<lparr>agent_calls = [(''open example.org'', openai_handle)],
      outcome = Returned (Some (AgentResult True ''done'')) None\<rparr>"
    by (simp add: s)
  moreover from timeout_bound [OF n p l, of ?late]
  have "run_browser_task ?late openai_env ''open example.org '' ''openai'' None =
     \<lparr>agent_calls = [(''open example.org'', openai_handle)],
      outcome = Returned None
        (Some ''Task timed out after 5 minutes. Please try a simpler task.'')\<rparr>"
    by (simp add: s)
  ultimately show ?thesis by simp
qed

subsection \<open>C3: a blank task\<close>

text \<open>
  C3. For every client configuration, the dispatcher of browser\_use\_ui\_fixed.py given
  an empty or whitespace-only task raises its \<open>ValueError("Task cannot be empty")\<close>
  before it builds a client or starts the agent, and returns
  \<open>(None, "Configuration error: Task cannot be empty")\<close>: the agent is not invoked. In
  browser\_use\_ui.py the same check stands in the only caller of the dispatcher: the
  handler does not dispatch a blank task at all and leaves the session as it was, as
  does the handler of the fixed front-end.
\<close>

theorem blank_task_never_runs:
  assumes "strip t = []"
  shows "run_browser_task ag e t p m =
           \<lparr>agent_calls = [],
            outcome = Returned None (Some ''Configuration error: Task cannot be empty'')\<rparr>
       \<and> handle_task_original ag e n1 n2 b t p s = (s, No_dispatch)
       \<and> handle_task ag e n1 n2 b t p s = (s, No_dispatch)"
  using assms
  by (simp add: run_browser_task_def try_body_def handle_task_original_def handle_task_def)

theorem blank_task_never_runs_witness:
  "run_browser_task (\<lambda>t l. Finishes 5 (Returns (AgentResult True ''done'')) Cancels)
      openai_env [CHR 0x20, CHR 0x09, CHR 0x0A] ''openai'' None =
     \<lparr>agent_calls = [],
      outcome = Returned None (Some ''Configuration error: Task cannot be empty'')\<rparr>
   \<and> handle_task_original (\<lambda>t l. Finishes 5 (Returns (AgentResult True ''done'')) Cancels)
        openai_env ''10:00'' ''10:05'' True [CHR 0x20, CHR 0x09, CHR 0x0A] ''openai''
        example_session = (example_session, No_dispatch)"
proof -
  have "strip [CHR 0x20, CHR 0x09, CHR 0x0A] = []"
    by (simp add: strip_def isspace_def)
  from blank_task_never_runs [OF this] show ?thesis
    by simp
qed

subsection \<open>C4: the credential check\<close>

text \<open>
  C4, counterexample. The key \<open>"abcdefghi "\<close> is ten characters long, not empty and no
  placeholder, so it is configured as the specification words the check; but
  \<open>validate_api_key\<close> measures the stripped key, nine characters, and returns \<open>False\<close>.
\<close>

theorem validate_api_key_counterexample:
  "configured_spec ''abcdefghi '' \<and> \<not> validate_api_key (Some ''abcdefghi '')"
  by (simp add: validate_api_key_def configured_spec_def placeholders_def min_key_length_def
      strip_def isspace_def)

text \<open>
  C4, as amended. \<open>validate_api_key\<close> returns \<open>False\<close> for \<open>None\<close>, and for a string
  exactly when the string stripped of surrounding whitespace is shorter than the minimum
  length of 10 (which covers the empty and the all-whitespace string) or the string as
  given equals one of the three placeholders; for every other string it returns \<open>True\<close>.
\<close>

theorem validate_api_key_amended:
  "validate_api_key None = False \<and>
   validate_api_key (Some k) =
     (\<not> (length (strip k) < min_key_length \<or> k \<in> set placeholders)) \<and>
   min_key_length = 10"
  by (cases "strip k = []")
    (auto simp: validate_api_key_def min_key_length_def strip_Nil)

theorem validate_api_key_amended_witness:
  "validate_api_key (Some ''sk-validkey1234'') \<and>
   \<not> validate_api_key (Some ''          '') \<and>
   \<not> validate_api_key (Some ''your_api_key_here'')"
proof -
  have s1: "strip ''sk-validkey1234'' = ''sk-validkey1234''"
    by (simp add: strip_def isspace_def)
  have s2: "strip ''          '' = []"
    by (simp add: strip_def isspace_def)
  have p1: "''sk-validkey1234'' \<notin> set placeholders"
    by (simp add: placeholders_def)
  have p3: "''your_api_key_here'' \<in> set placeholders"
    by (simp add: placeholders_def)
  have "validate_api_key (Some ''sk-validkey1234'')"
    using validate_api_key_amended [of "''sk-validkey1234''"] p1
    by (simp add: s1)
  moreover have "\<not> validate_api_key (Some ''          '')"
    using validate_api_key_amended [of "''          ''"]
    by (simp add: s2)
  moreover have "\<not> validate_api_key (Some ''your_api_key_here'')"
    using validate_api_key_amended [of "''your_api_key_here''"] p3
    by simp
  ultimately show ?thesis by simp
qed

subsection \<open>C5: the available providers\<close>

text \<open>
  C5, counterexample. With \<open>OPENAI_API_KEY=short\<close> the provider \<open>openai\<close> is listed,
  though its credential does not pass the configured check.
\<close>

theorem available_providers_counterexample:
  "get_available_providers [''OPENAI_API_KEY'' \<mapsto> ''short''] = [''openai''] \<and>
   available_providers_spec [''OPENAI_API_KEY'' \<mapsto> ''short''] = []"
  by (simp add: get_available_providers_def available_providers_spec_def
      supported_providers_def credential_var_def validate_api_key_def strip_def isspace_def
      min_key_length_def placeholders_def)

text \<open>
  C5, as amended. \<open>get_available_providers\<close> returns, in the order of the fixed
  enumeration, exactly the providers for which the client constructor accepts the
  credential: the variable is set and not empty and, for every provider but \<open>openai\<close>,
  differs from that provider's own placeholder. There is no minimum length. The list is
  always an order-preserving subsequence of the enumeration.
\<close>

theorem available_providers_amended:
  "get_available_providers e =
     filter (\<lambda>p. \<not> isl (select_llm e p None)) supported_providers \<and>
   subseq (get_available_providers e) supported_providers"
  by (simp add: get_available_providers_def supported_providers_def select_llm_def
      create_openai_llm_def create_anthropic_llm_def create_google_llm_def
      create_openrouter_llm_def)

theorem available_providers_amended_witness:
  "get_available_providers
     [''OPENAI_API_KEY'' \<mapsto> ''short'', ''GOOGLE_API_KEY'' \<mapsto> ''your_google_api_key_here'',
      ''OPENROUTER_API_KEY'' \<mapsto> ''sk-or-validkey1234''] = [''openai'', ''openrouter'']
   \<and> subseq [''openai'', ''openrouter''] supported_providers"
  using available_providers_amended
    [of "[''OPENAI_API_KEY'' \<mapsto> ''short'', ''GOOGLE_API_KEY'' \<mapsto> ''your_google_api_key_here'',
          ''OPENROUTER_API_KEY'' \<mapsto> ''sk-or-validkey1234'']"]
  by (simp add: supported_providers_def select_llm_def create_openai_llm_def
      create_anthropic_llm_def create_google_llm_def create_openrouter_llm_def)

subsection \<open>C6: saving and loading again\<close>

text \<open>
  C6, counterexample. The input holds the configured credential \<open>" sk-validkey1234"\<close> for
  \<open>openai\<close>, the provider \<open>openai\<close> and the model \<open>gpt-4\<close>. The save succeeds; what is
  loaded afterwards holds the credential without its leading blank and no model, so it
  differs from the input.
\<close>

theorem save_load_counterexample:
  "fst (save_api_keys example_session empty_world
          (Some '' sk-validkey1234'') (Some []) (Some []) (Some []))
   \<and> load (snd (save_api_keys example_session empty_world
          (Some '' sk-validkey1234'') (Some []) (Some []) (Some []))) =
       \<lparr>openai_credential = ''sk-validkey1234'', anthropic_credential = [],
        google_credential = [], openrouter_credential = [],
        provider_selected = ''openai'', model_selected = []\<rparr>
   \<and> load (snd (save_api_keys example_session empty_world
          (Some '' sk-validkey1234'') (Some []) (Some []) (Some [])))
       \<noteq> saved_input example_session '' sk-validkey1234'' [] [] []"
proof -
  let ?w = "snd (save_api_keys example_session empty_world
          (Some '' sk-validkey1234'') (Some []) (Some []) (Some []))"
  have "?w\<lparr>environ := environ ?w\<rparr> = ?w" by simp
  with load_after_save [OF example_saved example_lines, of "environ ?w"]
  have "load ?w =
       \<lparr>openai_credential = ''sk-validkey1234'', anthropic_credential = [],
        google_credential = [], openrouter_credential = [],
        provider_selected = ''openai'', model_selected = []\<rparr>"
    by (simp add: strip_or_empty_def strip_def isspace_def example_session_def)
  with example_saved show ?thesis
    by (simp add: saved_input_def example_session_def)
qed

text \<open>
  C6, as amended, for \<open>save_api_keys\<close> of browser\_use\_ui\_fixed.py and the loader
  modelled from the specification. Let at least one credential be configured, the file
  be writable, and none of the strings written into the file (the stripped credentials,
  the provider, the four model defaults of the environment) contain a line break. Then
  the save succeeds, and a load, in the process that saved or in one whose environment
  sets none of the five variables, yields each credential stripped of surrounding
  whitespace (\<open>None\<close> as the empty string), the provider of the session, and an empty
  model: the model selection is not persisted.
\<close>

theorem save_then_load:
  assumes "validate_api_key k1 \<or> validate_api_key k2 \<or> validate_api_key k3
           \<or> validate_api_key k4"
    and "writable w"
    and "list_all single_line (interpolated s w k1 k2 k3 k4)"
    and "e1 = environ (snd (save_api_keys s w k1 k2 k3 k4))
         \<or> (\<forall>k\<in>set settings_vars. e1 k = None)"
  shows "fst (save_api_keys s w k1 k2 k3 k4)
       \<and> load ((snd (save_api_keys s w k1 k2 k3 k4))\<lparr>environ := e1\<rparr>) =
           \<lparr>openai_credential = strip_or_empty k1, anthropic_credential = strip_or_empty k2,
            google_credential = strip_or_empty k3, openrouter_credential = strip_or_empty k4,
            provider_selected = llm_provider s, model_selected = []\<rparr>"
proof -
  from assms(1,2) have saved: "fst (save_api_keys s w k1 k2 k3 k4)"
    by (auto simp: save_api_keys_def)
  from assms(3)
  have "\<forall>l\<in>set (env_lines (strip_or_empty k1) (strip_or_empty k2) (strip_or_empty k3)
                   (strip_or_empty k4) (llm_provider s) (environ w)). newline \<notin> set l"
    by (simp add: interpolated_def single_line_def env_lines_def newline_def)
  from saved load_after_save [OF saved this assms(4)] show ?thesis
    by simp
qed

theorem save_then_load_witness:
  "fst (save_api_keys example_session empty_world
          (Some '' sk-validkey1234'') (Some []) (Some []) (Some []))
   \<and> load ((snd (save_api_keys example_session empty_world
          (Some '' sk-validkey1234'') (Some []) (Some []) (Some [])))
            \<lparr>environ := Map.empty\<rparr>) =
       \<lparr>openai_credential = ''sk-validkey1234'', anthropic_credential = [],
        google_credential = [], openrouter_credential = [],
        provider_selected = ''openai'', model_selected = []\<rparr>"
proof -
  have v: "validate_api_key (Some '' sk-validkey1234'') \<or> validate_api_key (Some [])
           \<or> validate_api_key (Some []) \<or> validate_api_key (Some [])"
    by (simp add: validate_api_key_def strip_def isspace_def placeholders_def
        min_key_length_def)
  have w: "writable empty_world"
    by (simp add: empty_world_def)
  have i: "list_all single_line (interpolated example_session empty_world
             (Some '' sk-validkey1234'') (Some []) (Some []) (Some []))"
    by (simp add: interpolated_def single_line_def strip_or_empty_def strip_def isspace_def
        newline_def getenv_default_def example_session_def empty_world_def)
  have e: "Map.empty = environ (snd (save_api_keys example_session empty_world
             (Some '' sk-validkey1234'') (Some []) (Some []) (Some [])))
           \<or> (\<forall>k\<in>set settings_vars. (Map.empty :: env) k = None)"
    by simp
  from save_then_load [OF v w i e] show ?thesis
    by (simp add: strip_or_empty_def strip_def isspace_def example_session_def)
qed

subsection \<open>C7: saving without a configured credential\<close>

text \<open>
  C7. The fixed \<open>save_api_keys\<close> returns \<open>False\<close> and writes nothing when no credential
  is configured (\<open>save_rejects_unconfigured\<close>). \<open>save_api_keys\<close> of browser\_use\_ui.py
  does not validate: called with four empty strings where the settings file holds a
  credential, it replaces the file by one with four empty credentials, while the fixed
  function leaves the same world untouched.
\<close>

theorem original_save_overwrites:
  "map_sum id dotenv (save_api_keys_original example_session configured_world
      (Some []) (Some []) (Some []) (Some []))
     = Inr (Some (env_content [] [] [] [] ''openai'' openai_env))
   \<and> Some (env_content [] [] [] [] ''openai'' openai_env) \<noteq> dotenv configured_world
   \<and> save_api_keys example_session configured_world (Some []) (Some []) (Some []) (Some [])
     = (False, configured_world)"
  by (simp add: save_api_keys_original_def save_api_keys_def load_dotenv_def format_key_def
      validate_api_key_def example_session_def configured_world_def env_content_def
      env_lines_def unlines_def)

theorem original_save_overwrites_witness:
  "map_sum id dotenv (save_api_keys_original example_session configured_world
      (Some []) (Some []) (Some []) (Some [])) \<noteq> Inr (dotenv configured_world)"
  using original_save_overwrites by simp

subsection \<open>C8: the extra headers of the openrouter client\<close>

text \<open>
  C8, counterexample. With the site URL set and the site name absent, the client is
  built with the header \<open>HTTP-Referer\<close>.
\<close>

theorem extra_headers_counterexample:
  "create_openrouter_llm [''OPENROUTER_API_KEY'' \<mapsto> ''sk-or-validkey1234'',
                          ''OPENROUTER_SITE_URL'' \<mapsto> ''https://example.org''] None =
     Inr \<lparr>client = ChatOpenAI, model = ''openai/gpt-4o'', temperature = 0,
          api_key = ''sk-or-validkey1234'', base_url = Some ''https://openrouter.ai/api/v1'',
          request_timeout = None,
          default_headers = Some [(''HTTP-Referer'', ''https://example.org'')]\<rparr>"
  by (simp add: create_openrouter_llm_def extra_headers_def or_else_def getenv_default_def)

text \<open>
  C8, as amended. When the openrouter client is built, each of the two headers is
  attached on its own: \<open>HTTP-Referer\<close> with the site URL exactly when the site URL is set
  and not empty, \<open>X-Title\<close> with the site name exactly when the site name is set and not
  empty. No other header is attached.
\<close>

theorem extra_headers_independent:
  assumes "create_openrouter_llm e m = Inr l"
  shows "\<exists>hs. default_headers l = Some hs \<and>
           map_of hs ''HTTP-Referer'' =
             (if truthy (e ''OPENROUTER_SITE_URL'') then e ''OPENROUTER_SITE_URL'' else None) \<and>
           map_of hs ''X-Title'' =
             (if truthy (e ''OPENROUTER_SITE_NAME'') then e ''OPENROUTER_SITE_NAME'' else None) \<and>
           set (map fst hs) \<subseteq> {''HTTP-Referer'', ''X-Title''}"
  using assms
  by (auto simp: create_openrouter_llm_def extra_headers_def truthy_the split: if_splits)

theorem extra_headers_independent_witness:
  "\<exists>hs. Some [(''X-Title'', ''Browser Use Automation'')] = Some hs \<and>
         map_of hs ''HTTP-Referer'' = None \<and>
         map_of hs ''X-Title'' = Some ''Browser Use Automation''"
proof -
  let ?e = "[''OPENROUTER_API_KEY'' \<mapsto> ''sk-or-validkey1234'',
             ''OPENROUTER_SITE_NAME'' \<mapsto> ''Browser Use Automation'']"
  let ?l = "\<lparr>client = ChatOpenAI, model = ''openai/gpt-4o'', temperature = 0,
          api_key = ''sk-or-validkey1234'', base_url = Some ''https://openrouter.ai/api/v1'',
          request_timeout = None,
          default_headers = Some [(''X-Title'', ''Browser Use Automation'')]\<rparr>"
  have "create_openrouter_llm ?e None = Inr ?l"
    by (simp add: create_openrouter_llm_def extra_headers_def or_else_def getenv_default_def)
  from extra_headers_independent [OF this] show ?thesis
    by simp
qed

subsection \<open>C9: the flag \<open>task_running\<close>\<close>

text \<open>
  C9. Both handlers set \<open>task_running\<close> to false in a statement after the \<open>try\<close>, not
  in a \<open>finally\<close>, so the flag is cleared whenever the dispatcher hands its pair back
  (\<open>flag_cleared_on_return\<close>, \<open>flag_cleared_on_return_original\<close>) and stays set on the
  other paths. In browser\_use\_ui\_fixed.py an agent that raises outside \<open>Exception\<close>
  (here \<open>asyncio.CancelledError\<close>) passes \<open>except Exception\<close> twice and leaves \<open>main\<close>
  with the flag set. In browser\_use\_ui.py, which awaits the agent without a timeout, a
  run that never finishes leaves the flag set for good, where the fixed front-end
  reports the timeout and clears the flag.
\<close>

theorem task_running_left_set:
  "handle_task (\<lambda>t l. Finishes 5 (Raises (Exc BaseExceptionOnly ''cancelled'')) Cancels)
      openai_env ''10:00'' ''10:05'' True ''open example.org'' ''openai'' example_session =
     (example_session
        \<lparr>chat_history := [\<lparr>role = ''user'', content = ''open example.org'',
                             timestamp = ''10:00''\<rparr>],
         task_running := True\<rparr>,
      Escapes (Exc BaseExceptionOnly ''cancelled''))
   \<and> handle_task_original (\<lambda>t l. Never_finishes Cancels)
      openai_env ''10:00'' ''10:05'' True ''open example.org'' ''openai'' example_session =
     (example_session
        \<lparr>chat_history := [\<lparr>role = ''user'', content = ''open example.org'',
                             timestamp = ''10:00''\<rparr>],
         current_task := ''open example.org'', task_running := True\<rparr>,
      Blocked)
   \<and> handle_task (\<lambda>t l. Never_finishes Cancels)
      openai_env ''10:00'' ''10:05'' True ''open example.org'' ''openai'' example_session =
     (example_session
        \<lparr>chat_history :=
           [\<lparr>role = ''user'', content = ''open example.org'', timestamp = ''10:00''\<rparr>,
            \<lparr>role = ''assistant'',
             content = ''Error: Task timed out after 5 minutes. Please try a simpler task.'',
             timestamp = ''10:05''\<rparr>],
         last_error := Some ''Task timed out after 5 minutes. Please try a simpler task.'',
         task_running := False\<rparr>,
      Rerun)"
proof -
  have s: "strip ''open example.org'' = ''open example.org''"
    by (simp add: strip_def isspace_def)
  have v: "validate_api_key (openai_env (upper ''openai'' @ ''_API_KEY''))"
    by (simp add: upper_def upper_char_def openai_env_def validate_api_key_def strip_def
        isspace_def placeholders_def min_key_length_def)
  have l: "select_llm openai_env ''openai'' (Some ''gpt-4'') =
             Inr (openai_handle\<lparr>model := ''gpt-4''\<rparr>)"
    by (simp add: select_llm_def create_openai_llm_def or_else_def getenv_default_def
        openai_env_def openai_handle_def)
  have m: "model_name example_session = ''gpt-4''"
    by (simp add: example_session_def)
  show ?thesis
    by (simp add: handle_task_def handle_task_original_def run_browser_task_def
        run_browser_task_original_def try_body_def run_task_with_llm_def append_message_def
        s v l m task_timeout_def Let_def)
      (simp add: example_session_def)
qed

theorem task_running_left_set_witness:
  "task_running (fst (handle_task
      (\<lambda>t l. Finishes 5 (Raises (Exc BaseExceptionOnly ''cancelled'')) Cancels)
      openai_env ''10:00'' ''10:05'' True ''open example.org'' ''openai'' example_session))
   \<and> task_running (fst (handle_task_original (\<lambda>t l. Never_finishes Cancels)
      openai_env ''10:00'' ''10:05'' True ''open example.org'' ''openai'' example_session))"
  using task_running_left_set by simp

subsection \<open>C10: the three model tables\<close>

text \<open>
  C10, counterexample. For \<open>openai\<close> the fixed front-end lists \<open>gpt-4\<close>, which the
  original front-end does not; for \<open>openrouter\<close> the original front-end lists six models
  and the flexible module four.
\<close>

theorem model_tables_counterexample:
  "get_model_options ''openai'' \<noteq> get_model_options_original ''openai'' \<and>
   get_model_options_original ''openrouter'' \<noteq> suggestions ''openrouter''"
  by (simp add: get_model_options_def get_model_options_original_def suggestions_def
      dict_get_def models_fixed_def models_original_def model_suggestions_def)

text \<open>
  C10, as amended. For every provider identifier the three tables are nested, not equal:
  the list of the flexible module is an order-preserving subsequence of the list of the
  original front-end, which is one of the list of the fixed front-end, and the three
  lists start with the same model. Each table returns the empty list for an identifier
  outside the fixed enumeration.
\<close>

theorem model_tables_nested:
  "subseq (suggestions p) (get_model_options_original p) \<and>
   subseq (get_model_options_original p) (get_model_options p) \<and>
   take 1 (suggestions p) = take 1 (get_model_options_original p) \<and>
   take 1 (get_model_options_original p) = take 1 (get_model_options p) \<and>
   (p \<notin> set supported_providers \<longrightarrow>
      suggestions p = [] \<and> get_model_options_original p = [] \<and> get_model_options p = [])"
  by (simp add: get_model_options_def get_model_options_original_def suggestions_def
      dict_get_def models_fixed_def models_original_def model_suggestions_def
      supported_providers_def)

theorem model_tables_nested_witness:
  "''mistral'' \<notin> set supported_providers \<and>
   suggestions ''mistral'' = [] \<and> get_model_options_original ''mistral'' = [] \<and>
   get_model_options ''mistral'' = [] \<and>
   subseq (suggestions ''openrouter'') (get_model_options ''openrouter'') \<and>
   take 1 (suggestions ''openrouter'') = take 1 (get_model_options_original ''openrouter'')"
proof -
  have "''mistral'' \<notin> set supported_providers"
    by (simp add: supported_providers_def)
  moreover have "subseq (suggestions ''openrouter'') (get_model_options ''openrouter'')"
    using model_tables_nested [of "''openrouter''"] subseq_order.trans by blast
  moreover have "take 1 (suggestions ''openrouter'')
                   = take 1 (get_model_options_original ''openrouter'')"
    using model_tables_nested [of "''openrouter''"] by blast
  ultimately show ?thesis
    using model_tables_nested [of "''mistral''"] by simp
qed

end
